theory Spec2Isabelle
  imports Complex_Main
begin

section \<open>Text, numbers and dates of the Python runtime\<close>

text \<open>
  The exporter \<^verbatim>\<open>scripts/fetch_data.py\<close> reads two tables from BigQuery and writes each
  as an indented JSON document. This theory embeds the script: its encoder hook
  \<^verbatim>\<open>_BQEncoder.default\<close>, \<^verbatim>\<open>run_query\<close>, \<^verbatim>\<open>write_json\<close>, \<^verbatim>\<open>main\<close> and the module body with its
  \<^verbatim>\<open>__main__\<close> guard. What the script calls but does not define (the \<^verbatim>\<open>json\<close> encoder
  loop, \<^verbatim>\<open>float\<close>, \<^verbatim>\<open>Decimal\<close>, \<^verbatim>\<open>datetime.isoformat\<close>) is modelled after CPython.

  Text that the program handles as a whole (environment values, SQL, paths, log lines,
  file contents) is a \<open>string\<close>. A \<^verbatim>\<open>str\<close> inside a row is a list of Unicode code
  points, because the encoder escapes by code point.
\<close>

type_synonym pystr = "nat list"

definition ustr :: "string \<Rightarrow> pystr" where
  "ustr s = map of_char s"

definition digit_char :: "nat \<Rightarrow> char" where
  "digit_char d = char_of (48 + d)"

function nat_digits :: "nat \<Rightarrow> string" where
  "nat_digits n = (if n < 10 then [digit_char n] else nat_digits (n div 10) @ [digit_char (n mod 10)])"
  by pat_completeness auto
termination
  by (relation "measure (\<lambda>n. n)") auto

declare nat_digits.simps [simp del]

text \<open>\<^verbatim>\<open>int.__repr__\<close>: decimal digits, with a minus sign for a negative number.\<close>

definition int_repr :: "int \<Rightarrow> string" where
  "int_repr i = (if i < 0 then CHR ''-'' # nat_digits (nat (- i)) else nat_digits (nat i))"

text \<open>Zero padding as in \<^verbatim>\<open>"%02d"\<close>, \<^verbatim>\<open>"%04d"\<close> and \<^verbatim>\<open>"%06d"\<close>.\<close>

definition zero_pad :: "nat \<Rightarrow> nat \<Rightarrow> string" where
  "zero_pad w n = replicate (w - length (nat_digits n)) CHR ''0'' @ nat_digits n"

subsection \<open>Decimal and float\<close>

text \<open>
  A finite \<^verbatim>\<open>decimal.Decimal\<close>: sign, coefficient and exponent, so that
  \<^verbatim>\<open>Decimal("12.50")\<close> is \<open>Dec False 1250 (-2)\<close>. BigQuery's NUMERIC columns hold finite
  values only; the special values of \<^verbatim>\<open>Decimal\<close> are outside the model.
\<close>

datatype decimal = Dec bool nat int

text \<open>
  A Python \<^verbatim>\<open>float\<close> is an IEEE 754 binary64 value: a finite magnitude with a sign
  (so that \<open>-0.0\<close> exists), an infinity or a NaN.
\<close>

datatype pyfloat = Finite bool rat | Infinite bool | NaN

function ilog :: "nat \<Rightarrow> nat \<Rightarrow> nat" where
  "ilog b n = (if b < 2 \<or> n < b then 0 else Suc (ilog b (n div b)))"
  by pat_completeness auto
termination
  by (relation "measure (\<lambda>(b, n). n)") auto

declare ilog.simps [simp del]

definition pow_int :: "nat \<Rightarrow> int \<Rightarrow> rat" where
  "pow_int b k = (if 0 \<le> k then of_nat (b ^ nat k) else 1 / of_nat (b ^ nat (- k)))"

text \<open>The largest \<open>k\<close> with \<open>b ^ k \<le> q\<close>, for a positive \<open>q\<close>.\<close>

definition floor_log :: "nat \<Rightarrow> rat \<Rightarrow> int" where
  "floor_log b q =
     (if 1 \<le> q then int (ilog b (nat \<lfloor>q\<rfloor>))
      else - int (ilog b (nat (\<lceil>1 / q\<rceil> - 1)) + 1))"

definition round_half_even :: "rat \<Rightarrow> int" where
  "round_half_even q =
     (let f = \<lfloor>q\<rfloor>; r = q - of_int f
      in if r < 1 / 2 then f else if 1 / 2 < r then f + 1 else if even f then f else f + 1)"

text \<open>
  Rounding a magnitude to binary64, to nearest with ties to even: 53 bits of mantissa,
  subnormals below \<open>2 ^ -1022\<close>, overflow to infinity from \<open>2 ^ 1024\<close>.
\<close>

definition float_of_rat :: "bool \<Rightarrow> rat \<Rightarrow> pyfloat" where
  "float_of_rat s q =
     (if q = 0 then Finite s 0
      else let e = max (floor_log 2 q - 52) (- 1074);
               m = round_half_even (q / pow_int 2 e);
               r = of_int m * pow_int 2 e
           in if pow_int 2 1024 \<le> r then Infinite s else Finite s r)"

text \<open>\<^verbatim>\<open>float(obj)\<close> for a \<^verbatim>\<open>Decimal\<close>: the nearest binary64 value.\<close>

definition float_of_decimal :: "decimal \<Rightarrow> pyfloat" where
  "float_of_decimal d = (case d of Dec s c e \<Rightarrow> float_of_rat s (of_nat c * pow_int 10 e))"

text \<open>
  \<^verbatim>\<open>float.__repr__\<close> prints the shortest decimal that reads back as the same float, and
  of those the nearest. With \<open>k\<close> significant digits the only candidates are the two
  \<open>k\<close>-digit decimals around the value; seventeen digits always suffice, so the search
  over \<open>k\<close> ends there with the nearer one.
\<close>

definition reads_back :: "rat \<Rightarrow> rat \<Rightarrow> bool" where
  "reads_back q c = (float_of_rat False c = Finite False q)"

function shortest_from :: "nat \<Rightarrow> int \<Rightarrow> rat \<Rightarrow> int \<times> int" where
  "shortest_from k d q =
     (let e = d - int k + 1; lo = \<lfloor>q / pow_int 10 e\<rfloor>;
          cl = of_int lo * pow_int 10 e; ch = of_int (lo + 1) * pow_int 10 e
      in if 17 \<le> k then (if q - cl \<le> ch - q then (lo, e) else (lo + 1, e))
         else if reads_back q cl \<and> (\<not> reads_back q ch \<or> q - cl \<le> ch - q) then (lo, e)
         else if reads_back q ch then (lo + 1, e)
         else shortest_from (Suc k) d q)"
  by pat_completeness auto
termination
  by (relation "measure (\<lambda>(k, d, q). 17 - k)") auto

declare shortest_from.simps [simp del]

function strip_zeros :: "nat \<Rightarrow> int \<Rightarrow> nat \<times> int" where
  "strip_zeros m e = (if m \<noteq> 0 \<and> m mod 10 = 0 then strip_zeros (m div 10) (e + 1) else (m, e))"
  by pat_completeness auto
termination
  by (relation "measure (\<lambda>(m, e). m)") auto

declare strip_zeros.simps [simp del]

definition shortest_digits :: "rat \<Rightarrow> nat \<times> int" where
  "shortest_digits q = (case shortest_from 1 (floor_log 10 q) q of (m, e) \<Rightarrow> strip_zeros (nat m) e)"

text \<open>
  The layout of \<^verbatim>\<open>repr\<close>: \<open>ds\<close> are the digits and \<open>p\<close> the position of the decimal
  point after the first \<open>p\<close> digits. Exponent notation is used when \<open>p \<le> -4\<close> or
  \<open>16 < p\<close>, with at least two exponent digits; otherwise positional notation, which
  always shows a fractional part.
\<close>

definition float_layout :: "string \<Rightarrow> int \<Rightarrow> string" where
  "float_layout ds p =
     (if p \<le> - 4 \<or> 16 < p then
        take 1 ds @ (if 1 < length ds then CHR ''.'' # drop 1 ds else [])
        @ CHR ''e'' # (if p - 1 < 0 then CHR ''-'' else CHR ''+'') # zero_pad 2 (nat \<bar>p - 1\<bar>)
      else if p \<le> 0 then ''0.'' @ replicate (nat (- p)) CHR ''0'' @ ds
      else if int (length ds) \<le> p then ds @ replicate (nat p - length ds) CHR ''0'' @ ''.0''
      else take (nat p) ds @ CHR ''.'' # drop (nat p) ds)"

definition float_repr :: "bool \<Rightarrow> rat \<Rightarrow> string" where
  "float_repr s q =
     (if s then ''-'' else '''') @
     (if q = 0 then ''0.0''
      else case shortest_digits q of (m, e) \<Rightarrow> float_layout (nat_digits m) (e + int (length (nat_digits m))))"

text \<open>Evaluating the float functions on numerals.\<close>

lemma floor_rat_numeral_div [simp]: "\<lfloor>numeral a / numeral b :: rat\<rfloor> = numeral a div numeral b"
  using floor_divide_of_int_eq [of "numeral a" "numeral b", where ?'a = rat] by simp

lemma floor_rat_one_div [simp]: "\<lfloor>1 / numeral b :: rat\<rfloor> = 1 div numeral b"
  using floor_divide_of_int_eq [of 1 "numeral b", where ?'a = rat] by simp

lemma ceiling_rat_numeral_div [simp]: "\<lceil>numeral a / numeral b :: rat\<rceil> = - (- numeral a div numeral b)"
  using floor_divide_of_int_eq [of "- numeral a" "numeral b", where ?'a = rat]
  by (simp add: ceiling_def)


subsection \<open>Date and time\<close>

text \<open>
  A \<^verbatim>\<open>datetime.datetime\<close>: the calendar fields and, for an aware value, the UTC offset
  in seconds.
\<close>

record datetime =
  year :: nat
  month :: nat
  day :: nat
  hour :: nat
  minute :: nat
  second :: nat
  microsecond :: nat
  utcoffset :: "int option"

definition format_offset :: "int \<Rightarrow> string" where
  "format_offset off =
     (let a = nat \<bar>off\<bar>
      in (if off < 0 then CHR ''-'' else CHR ''+'') # zero_pad 2 (a div 3600) @ CHR '':'' # zero_pad 2 (a div 60 mod 60)
         @ (if a mod 60 \<noteq> 0 then CHR '':'' # zero_pad 2 (a mod 60) else []))"

text \<open>\<^verbatim>\<open>datetime.isoformat()\<close> with its default separator and precision.\<close>

definition isoformat :: "datetime \<Rightarrow> string" where
  "isoformat t =
     zero_pad 4 (year t) @ CHR ''-'' # zero_pad 2 (month t) @ CHR ''-'' # zero_pad 2 (day t)
     @ CHR ''T'' # zero_pad 2 (hour t) @ CHR '':'' # zero_pad 2 (minute t) @ CHR '':'' # zero_pad 2 (second t)
     @ (if microsecond t \<noteq> 0 then CHR ''.'' # zero_pad 6 (microsecond t) else [])
     @ (case utcoffset t of None \<Rightarrow> [] | Some off \<Rightarrow> format_offset off)"

section \<open>Row values and the JSON encoder\<close>

text \<open>
  Exceptions are values. \<open>ServiceError\<close> stands for the exceptions of the BigQuery
  client (rejected query, missing table, permission, network).
\<close>

datatype pyerr =
    KeyError string
  | TypeError string
  | ValueError string
  | OSError string
  | ServiceError string

text \<open>
  A value as the encoder sees it. The JSON-native types come first. \<open>PObject cls\<close> is an
  instance of class \<open>cls\<close> that has no attribute \<^verbatim>\<open>isoformat\<close> (\<^verbatim>\<open>bytes\<close>, for one).
  \<open>PDuck cls a\<close> is an instance of a class other than \<^verbatim>\<open>Decimal\<close> and \<^verbatim>\<open>datetime\<close> that
  has an attribute \<^verbatim>\<open>isoformat\<close>, and \<open>a\<close> says what \<^verbatim>\<open>obj.isoformat()\<close> does: the
  attribute is not callable, the call raises, or it returns a value. A \<^verbatim>\<open>datetime.date\<close>
  or \<^verbatim>\<open>datetime.time\<close> is a \<open>PDuck\<close> whose call returns a \<^verbatim>\<open>str\<close>.
\<close>

datatype pyval =
    PNone
  | PBool bool
  | PInt int
  | PFloat pyfloat
  | PStr pystr
  | PList "pyval list"
  | PDict "(pystr \<times> pyval) list"
  | PDecimal decimal
  | PDatetime datetime
  | PObject string
  | PDuck string attr
and attr =
    NotCallable string
  | Raises pyerr
  | Returns pyval

type_synonym row = "(pystr \<times> pyval) list"

definition type_name :: "pyval \<Rightarrow> string" where
  "type_name v =
     (case v of PNone \<Rightarrow> ''NoneType'' | PBool _ \<Rightarrow> ''bool'' | PInt _ \<Rightarrow> ''int'' | PFloat _ \<Rightarrow> ''float''
      | PStr _ \<Rightarrow> ''str'' | PList _ \<Rightarrow> ''list'' | PDict _ \<Rightarrow> ''dict'' | PDecimal _ \<Rightarrow> ''Decimal''
      | PDatetime _ \<Rightarrow> ''datetime'' | PObject cls \<Rightarrow> cls | PDuck cls _ \<Rightarrow> cls)"

text \<open>
  \<^verbatim>\<open>_BQEncoder.default\<close>, in the order of the source: \<^verbatim>\<open>Decimal\<close> to \<^verbatim>\<open>float\<close>, \<^verbatim>\<open>datetime\<close> to
  its \<^verbatim>\<open>isoformat()\<close>, anything else with an attribute \<^verbatim>\<open>isoformat\<close> to the result of
  calling it, and otherwise the \<^verbatim>\<open>TypeError\<close> of \<^verbatim>\<open>JSONEncoder.default\<close>.
\<close>

definition call_isoformat :: "attr \<Rightarrow> pyerr + pyval" where
  "call_isoformat a =
     (case a of
        NotCallable ty \<Rightarrow> Inl (TypeError ([CHR 0x27] @ ty @ [CHR 0x27] @ '' object is not callable''))
      | Raises e \<Rightarrow> Inl e
      | Returns v \<Rightarrow> Inr v)"

definition default :: "pyval \<Rightarrow> pyerr + pyval" where
  "default obj =
     (case obj of
        PDecimal d \<Rightarrow> Inr (PFloat (float_of_decimal d))
      | PDatetime t \<Rightarrow> Inr (PStr (ustr (isoformat t)))
      | PDuck cls a \<Rightarrow> call_isoformat a
      | _ \<Rightarrow> Inl (TypeError (''Object of type '' @ type_name obj @ '' is not JSON serializable'')))"

subsection \<open>Strings\<close>

definition hex_digit :: "nat \<Rightarrow> char" where
  "hex_digit d = (if d < 10 then char_of (48 + d) else char_of (87 + d))"

definition hex4 :: "nat \<Rightarrow> string" where
  "hex4 n = [hex_digit (n div 4096 mod 16), hex_digit (n div 256 mod 16), hex_digit (n div 16 mod 16), hex_digit (n mod 16)]"

text \<open>
  \<^verbatim>\<open>json.encoder.py_encode_basestring_ascii\<close>: the quote, the backslash and the five named
  control characters get their short escapes; a code point from space to tilde stands
  for itself; everything else becomes \<^verbatim>\<open>\uXXXX\<close>, as a surrogate pair outside the basic
  plane.
\<close>

definition escape_cp :: "nat \<Rightarrow> string" where
  "escape_cp c =
     (if c = 0x22 then [CHR 0x5C, CHR 0x22]
      else if c = 0x5C then [CHR 0x5C, CHR 0x5C]
      else if c = 0x0A then [CHR 0x5C, CHR ''n'']
      else if c = 0x0D then [CHR 0x5C, CHR ''r'']
      else if c = 0x09 then [CHR 0x5C, CHR ''t'']
      else if c = 0x0C then [CHR 0x5C, CHR ''f'']
      else if c = 0x08 then [CHR 0x5C, CHR ''b'']
      else if 0x20 \<le> c \<and> c \<le> 0x7E then [char_of c]
      else if c < 0x10000 then CHR 0x5C # CHR ''u'' # hex4 c
      else CHR 0x5C # CHR ''u'' # hex4 (0xD800 + (c - 0x10000) div 1024 mod 1024)
           @ CHR 0x5C # CHR ''u'' # hex4 (0xDC00 + (c - 0x10000) mod 1024))"

definition encode_basestring_ascii :: "pystr \<Rightarrow> string" where
  "encode_basestring_ascii s = CHR 0x22 # concat (map escape_cp s) @ [CHR 0x22]"

subsection \<open>Numbers\<close>

text \<open>The encoder's \<^verbatim>\<open>floatstr\<close>, with \<^verbatim>\<open>allow_nan\<close> at its default.\<close>

definition floatstr :: "pyfloat \<Rightarrow> string" where
  "floatstr f =
     (case f of
        NaN \<Rightarrow> ''NaN''
      | Infinite s \<Rightarrow> (if s then ''-Infinity'' else ''Infinity'')
      | Finite s q \<Rightarrow> float_repr s q)"

subsection \<open>The encoder loop\<close>

text \<open>
  \<^verbatim>\<open>json.dump\<close> writes the chunks of \<^verbatim>\<open>iterencode\<close> to the file as they come, so an
  exception in the middle leaves the text produced so far in the file. The encoder
  therefore returns the text emitted and the exception, if any, that ended it.
\<close>

type_synonym emitted = "string \<times> pyerr option"

definition say :: "string \<Rightarrow> emitted" where
  "say s = (s, None)"

definition emit_then :: "emitted \<Rightarrow> emitted \<Rightarrow> emitted" where
  "emit_then a b = (case snd a of Some e \<Rightarrow> a | None \<Rightarrow> (fst a @ fst b, snd b))"

fun join_emit :: "string \<Rightarrow> emitted list \<Rightarrow> emitted" where
  "join_emit sep [] = say []"
| "join_emit sep [x] = x"
| "join_emit sep (x # y # ys) = emit_then x (emit_then (say sep) (join_emit sep (y # ys)))"

text \<open>A line break followed by the indentation of the level, two spaces a level.\<close>

definition newline_indent :: "nat \<Rightarrow> string" where
  "newline_indent lvl = CHR 0x0A # replicate (2 * lvl) CHR '' ''"

definition rank :: "pyval \<Rightarrow> nat" where
  "rank v = 2 * size v + (case v of PDecimal _ \<Rightarrow> 1 | PDatetime _ \<Rightarrow> 1 | _ \<Rightarrow> 0)"

lemma size_member_list: "x \<in> set xs \<Longrightarrow> size x < Suc (size_list size xs)"
  by (induction xs) auto

lemma size_member_dict: "(k, v) \<in> set kvs \<Longrightarrow> size v < Suc (size_list (size_prod (\<lambda>_. 0) size) kvs)"
  by (induction kvs) auto

lemma rank_tag: "(case v of PDecimal _ \<Rightarrow> 1 | PDatetime _ \<Rightarrow> 1 | _ \<Rightarrow> (0::nat)) \<le> 1"
  by (cases v) auto

lemma rank_default: "default v = Inr v' \<Longrightarrow> rank v' < rank v"
  using rank_tag [of v']
  by (cases v) (auto simp: default_def call_isoformat_def rank_def split: attr.splits)

lemma rank_member_list: "x \<in> set xs \<Longrightarrow> rank x < rank (PList xs)"
  using size_member_list [of x xs] rank_tag [of x] by (simp add: rank_def)

lemma rank_member_dict: "(k, v) \<in> set kvs \<Longrightarrow> rank v < rank (PDict kvs)"
  using size_member_dict [of k v kvs] rank_tag [of v] by (simp add: rank_def)

text \<open>
  \<^verbatim>\<open>_iterencode\<close> with \<^verbatim>\<open>indent=2\<close>: a native value is written directly, a list or a dict
  element by element one level deeper, and any other object is handed to \<open>default\<close> and
  its result encoded in turn.
\<close>

function iterencode :: "nat \<Rightarrow> pyval \<Rightarrow> emitted" where
  "iterencode lvl (PStr s) = say (encode_basestring_ascii s)"
| "iterencode lvl PNone = say ''null''"
| "iterencode lvl (PBool b) = say (if b then ''true'' else ''false'')"
| "iterencode lvl (PInt i) = say (int_repr i)"
| "iterencode lvl (PFloat f) = say (floatstr f)"
| "iterencode lvl (PList xs) =
     (if xs = [] then say ''[]''
      else emit_then (say (CHR ''['' # newline_indent (Suc lvl)))
             (emit_then (join_emit (CHR '','' # newline_indent (Suc lvl)) (map (iterencode (Suc lvl)) xs))
                (say (newline_indent lvl @ '']''))))"
| "iterencode lvl (PDict kvs) =
     (if kvs = [] then say ''{}''
      else emit_then (say (CHR ''{'' # newline_indent (Suc lvl)))
             (emit_then
                (join_emit (CHR '','' # newline_indent (Suc lvl))
                   (map (\<lambda>(k, v). emit_then (say (encode_basestring_ascii k @ '': '')) (iterencode (Suc lvl) v)) kvs))
                (say (newline_indent lvl @ ''}''))))"
| "iterencode lvl (PDecimal d) =
     (case default (PDecimal d) of Inl e \<Rightarrow> ([], Some e) | Inr v \<Rightarrow> iterencode lvl v)"
| "iterencode lvl (PDatetime t) =
     (case default (PDatetime t) of Inl e \<Rightarrow> ([], Some e) | Inr v \<Rightarrow> iterencode lvl v)"
| "iterencode lvl (PObject cls) =
     (case default (PObject cls) of Inl e \<Rightarrow> ([], Some e) | Inr v \<Rightarrow> iterencode lvl v)"
| "iterencode lvl (PDuck cls a) =
     (case default (PDuck cls a) of Inl e \<Rightarrow> ([], Some e) | Inr v \<Rightarrow> iterencode lvl v)"
  by pat_completeness auto
termination
  by (relation "measure (\<lambda>(lvl, v). rank v)")
     (auto dest: rank_default rank_member_list rank_member_dict)

declare iterencode.simps [simp del]

text \<open>
  The values the encoder gets through without an exception: the native ones, \<^verbatim>\<open>Decimal\<close>
  and \<^verbatim>\<open>datetime\<close>, an object whose \<^verbatim>\<open>isoformat()\<close> returns such a value, and lists and
  dicts of them.
\<close>

function (sequential) serializable :: "pyval \<Rightarrow> bool" where
  "serializable (PList xs) = list_all serializable xs"
| "serializable (PDict kvs) = list_all (\<lambda>(k, v). serializable v) kvs"
| "serializable (PObject cls) = False"
| "serializable (PDuck cls (Returns v)) = serializable v"
| "serializable (PDuck cls a) = False"
| "serializable v = True"
  by pat_completeness auto
termination
  by (relation "measure size") (auto dest: size_member_list size_member_dict)

lemma snd_say [simp]: "snd (say s) = None"
  by (simp add: say_def)

lemma fst_say [simp]: "fst (say s) = s"
  by (simp add: say_def)

lemma snd_emit_then [simp]: "snd (emit_then a b) = None \<longleftrightarrow> snd a = None \<and> snd b = None"
  by (simp add: emit_then_def split: option.splits)

lemma snd_join_emit [simp]: "snd (join_emit sep es) = None \<longleftrightarrow> (\<forall>e \<in> set es. snd e = None)"
  by (induction sep es rule: join_emit.induct) auto

lemma serializable_iff: "snd (iterencode lvl v) = None \<longleftrightarrow> serializable v"
proof (induction lvl v rule: iterencode.induct)
  case (6 lvl xs)
  then show ?case by (auto simp: iterencode.simps list_all_iff)
next
  case (7 lvl kvs)
  have "\<And>k v. (k, v) \<in> set kvs \<Longrightarrow> (snd (iterencode (Suc lvl) v) = None) = serializable v"
    using 7 by (cases "kvs = []") auto
  then show ?case
    by (auto simp: iterencode.simps list_all_iff)
next
  case (11 lvl cls a)
  then show ?case by (cases a) (auto simp: iterencode.simps default_def call_isoformat_def)
qed (auto simp: iterencode.simps default_def)


lemma fst_emit_then [simp]: "snd a = None \<Longrightarrow> fst (emit_then a b) = fst a @ fst b"
  by (simp add: emit_then_def)



subsection \<open>The conversion the encoder performs\<close>

text \<open>
  The script has no separate conversion step: a value is converted when the encoder
  reaches it and calls \<open>default\<close>. \<open>json_safe\<close> is the value that gets written: native
  values as they are, lists and dicts element by element, every other object replaced
  by what \<open>default\<close> returns for it, and left in place where \<open>default\<close> raises.
\<close>

function json_safe :: "pyval \<Rightarrow> pyval" where
  "json_safe PNone = PNone"
| "json_safe (PBool b) = PBool b"
| "json_safe (PInt i) = PInt i"
| "json_safe (PFloat f) = PFloat f"
| "json_safe (PStr s) = PStr s"
| "json_safe (PList xs) = PList (map json_safe xs)"
| "json_safe (PDict kvs) = PDict (map (\<lambda>(k, v). (k, json_safe v)) kvs)"
| "json_safe (PDecimal d) = (case default (PDecimal d) of Inl e \<Rightarrow> PDecimal d | Inr v \<Rightarrow> json_safe v)"
| "json_safe (PDatetime t) = (case default (PDatetime t) of Inl e \<Rightarrow> PDatetime t | Inr v \<Rightarrow> json_safe v)"
| "json_safe (PObject cls) = (case default (PObject cls) of Inl e \<Rightarrow> PObject cls | Inr v \<Rightarrow> json_safe v)"
| "json_safe (PDuck cls a) = (case default (PDuck cls a) of Inl e \<Rightarrow> PDuck cls a | Inr v \<Rightarrow> json_safe v)"
  by pat_completeness auto
termination
  by (relation "measure rank") (auto dest: rank_default rank_member_list rank_member_dict)

declare json_safe.simps [simp del]

lemma join_emit_cong:
  "\<forall>x \<in> set xs. f x = g x \<Longrightarrow> join_emit sep (map f xs) = join_emit sep (map g xs)"
  by (induction xs) (auto intro: arg_cong2 [where f = "join_emit"])


subsection \<open>The shape of number texts\<close>




lemma nat_digits_not_Nil [simp]: "nat_digits n \<noteq> []"
  by (subst nat_digits.simps) simp

















subsection \<open>Dates, times and scalars\<close>

text \<open>
  A \<^verbatim>\<open>datetime.date\<close> and a naive \<^verbatim>\<open>datetime.time\<close>, as the encoder meets them: objects
  whose \<^verbatim>\<open>isoformat()\<close> returns their ISO 8601 text.
\<close>

definition date_isoformat :: "nat \<Rightarrow> nat \<Rightarrow> nat \<Rightarrow> string" where
  "date_isoformat y m d = zero_pad 4 y @ CHR ''-'' # zero_pad 2 m @ CHR ''-'' # zero_pad 2 d"


definition py_date :: "nat \<Rightarrow> nat \<Rightarrow> nat \<Rightarrow> pyval" where
  "py_date y m d = PDuck ''date'' (Returns (PStr (ustr (date_isoformat y m d))))"


definition is_scalar :: "pyval \<Rightarrow> bool" where
  "is_scalar v = (case v of PNone \<Rightarrow> True | PBool _ \<Rightarrow> True | PInt _ \<Rightarrow> True | PFloat _ \<Rightarrow> True
                  | PStr _ \<Rightarrow> True | _ \<Rightarrow> False)"

text \<open>
  The types that are convertible according to the specification: the JSON-native
  scalars, \<^verbatim>\<open>Decimal\<close>, and the date and time types.
\<close>

definition listed_convertible :: "pyval \<Rightarrow> bool" where
  "listed_convertible v =
     (is_scalar v \<or>
      (case v of PDecimal _ \<Rightarrow> True | PDatetime _ \<Rightarrow> True
       | PDuck cls _ \<Rightarrow> cls = ''date'' \<or> cls = ''time'' | _ \<Rightarrow> False))"


section \<open>The exporter\<close>

text \<open>
  What a run does to the outside is recorded in a \<open>world\<close>: the files, and the trace of
  its effects in the order they happen. A \<open>Print\<close> or \<open>PrintErr\<close> carries the line
  sent to the output or the error stream.
\<close>

datatype event =
    Connect string
  | ReadClock
  | Query string
  | OpenFile string
  | Print string
  | PrintErr string

record world =
  files :: "string \<rightharpoonup> string"
  trace :: "event list"

text \<open>
  What the outside gives to a run: the process environment, whether creating the
  BigQuery client fails, what the warehouse answers to a query, the clock (its reading
  depends on how much has happened so far), and which paths can be opened for writing.
\<close>

record host =
  environ :: "string \<rightharpoonup> string"
  client_fault :: "pyerr option"
  warehouse :: "string \<Rightarrow> pyerr + row list"
  clock :: "nat \<Rightarrow> datetime"
  openable :: "string \<Rightarrow> bool"

definition log :: "event \<Rightarrow> world \<Rightarrow> world" where
  "log ev w = w\<lparr>trace := trace w @ [ev]\<rparr>"

text \<open>\<^verbatim>\<open>datetime.now(timezone.utc)\<close>: the reading of the clock, aware, at offset zero.\<close>

definition utcnow :: "host \<Rightarrow> world \<Rightarrow> datetime" where
  "utcnow h w = (clock h (length (trace w)))\<lparr>utcoffset := Some 0\<rparr>"

definition OUTPUT_DIR :: string where
  "OUTPUT_DIR = ''static/data''"

definition text_lines :: "string list \<Rightarrow> string" where
  "text_lines ls = concat (map (\<lambda>l. l @ [CHR 0x0A]) ls)"

definition table_ref :: "string \<Rightarrow> string \<Rightarrow> string \<Rightarrow> string" where
  "table_ref project dataset table = ''  '' @ [CHR 0x60] @ project @ ''.'' @ dataset @ ''.'' @ table @ [CHR 0x60]"

definition CARD_METRICS_QUERY :: "string \<Rightarrow> string \<Rightarrow> string" where
  "CARD_METRICS_QUERY project dataset =
     CHR 0x0A # text_lines
       [''SELECT'', ''  set_id,'', ''  month,'', ''  card_number,'', ''  card_name,'', ''  rarity,'',
        ''  raw_price,'', ''  psa_10_price,'', ''  psa_9_price,'', ''  tag_10_price,'', ''  ace_10_price,'',
        ''  cgc_10_price,'', ''  bgs_10_price,'', ''  bgs_10_black_label_price,'', ''  cgc_10_pristine_price'',
        ''FROM'', table_ref project dataset ''card_metrics'',
        ''ORDER BY'', ''  month DESC,'', ''  set_id,'', ''  card_number'']"

definition SET_METRICS_QUERY :: "string \<Rightarrow> string \<Rightarrow> string" where
  "SET_METRICS_QUERY project dataset =
     CHR 0x0A # text_lines
       [''SELECT'', ''  set_id,'', ''  month,'', ''  ev,'', ''  set_value,'', ''  top_5_value,'', ''  top_5_ratio'',
        ''FROM'', table_ref project dataset ''set_metrics'',
        ''ORDER BY'', ''  month DESC,'', ''  set_id'']"

text \<open>\<^verbatim>\<open>str.strip()\<close> on the ASCII white space.\<close>

definition is_space :: "char \<Rightarrow> bool" where
  "is_space c = (c = CHR '' '' \<or> (9 \<le> (of_char c :: nat) \<and> (of_char c :: nat) \<le> 13)
                 \<or> (28 \<le> (of_char c :: nat) \<and> (of_char c :: nat) \<le> 31))"

definition strip :: "string \<Rightarrow> string" where
  "strip s = rev (dropWhile is_space (rev (dropWhile is_space s)))"

text \<open>
  \<^verbatim>\<open>run_query\<close>: the progress line, then the query; the rows come back in the order of
  the result, each turned into a dict (\<^verbatim>\<open>dict(row)\<close> keeps columns and values as they
  are). An exception of the client is the result \<open>Inl\<close>.
\<close>

definition run_query :: "host \<Rightarrow> string \<Rightarrow> world \<Rightarrow> (pyerr + row list) \<times> world" where
  "run_query h sql w =
     (let w1 = log (Print (''Running query:'' @ [CHR 0x0A] @ strip sql @ [CHR 0x0A])) w;
          w2 = log (Query sql) w1
      in case warehouse h sql of
           Inl e \<Rightarrow> (Inl e, w2)
         | Inr rows \<Rightarrow> (Inr (map (\<lambda>row. row) rows), w2))"

text \<open>\<^verbatim>\<open>str()\<close> of the value put into a progress line; the program only prints an int there.\<close>

definition py_str :: "pyval \<Rightarrow> string" where
  "py_str v =
     (case v of PInt i \<Rightarrow> int_repr i | PNone \<Rightarrow> ''None'' | PBool b \<Rightarrow> (if b then ''True'' else ''False'')
      | _ \<Rightarrow> ''<'' @ type_name v @ ''>'')"

text \<open>
  \<^verbatim>\<open>write_json\<close>: opening the file for writing empties it; \<^verbatim>\<open>json.dump\<close> then writes what
  the encoder emits, and the \<^verbatim>\<open>with\<close> block closes the file also when the encoder
  raises, so the file holds the text emitted up to there. The progress line reads
  \<^verbatim>\<open>payload['record_count']\<close>.
\<close>

definition write_json :: "host \<Rightarrow> row \<Rightarrow> string \<Rightarrow> world \<Rightarrow> (pyerr + unit) \<times> world" where
  "write_json h payload filename w =
     (let path = OUTPUT_DIR @ ''/'' @ filename
      in if \<not> openable h path then (Inl (OSError path), w)
         else let out = iterencode 0 (PDict payload);
                  w1 = (log (OpenFile path) w)\<lparr>files := (files w)(path \<mapsto> fst out)\<rparr>
              in case snd out of
                   Some e \<Rightarrow> (Inl e, w1)
                 | None \<Rightarrow>
                     (case map_of payload (ustr ''record_count'') of
                        None \<Rightarrow> (Inl (KeyError ''record_count''), w1)
                      | Some n \<Rightarrow>
                          (Inr (), log (Print (''Written '' @ py_str n @ '' records ''
                                               @ [CHR 0xE2, CHR 0x86, CHR 0x92] @ '' '' @ path)) w1)))"

text \<open>The dict that \<^verbatim>\<open>main\<close> builds for each job.\<close>

definition envelope :: "string \<Rightarrow> row list \<Rightarrow> row" where
  "envelope now rows =
     [(ustr ''last_updated'', PStr (ustr now)),
      (ustr ''record_count'', PInt (int (length rows))),
      (ustr ''data'', PList (map PDict rows))]"

text \<open>
  \<^verbatim>\<open>main\<close>: the client, the timestamp, then the two jobs one after the other. An
  exception ends it where it is raised.
\<close>

definition main :: "host \<Rightarrow> string \<Rightarrow> string \<Rightarrow> world \<Rightarrow> (pyerr + unit) \<times> world" where
  "main h project dataset w =
     (case client_fault h of
        Some e \<Rightarrow> (Inl e, w)
      | None \<Rightarrow>
          (let w1 = log (Connect project) w;
               now = isoformat (utcnow h w1);
               w2 = log ReadClock w1
           in case run_query h (CARD_METRICS_QUERY project dataset) w2 of
                (Inl e, w3) \<Rightarrow> (Inl e, w3)
              | (Inr card_rows, w3) \<Rightarrow>
                  (case write_json h (envelope now card_rows) ''card_metrics.json'' w3 of
                     (Inl e, w4) \<Rightarrow> (Inl e, w4)
                   | (Inr _, w4) \<Rightarrow>
                       (case run_query h (SET_METRICS_QUERY project dataset) w4 of
                          (Inl e, w5) \<Rightarrow> (Inl e, w5)
                        | (Inr set_rows, w5) \<Rightarrow>
                            (case write_json h (envelope now set_rows) ''set_metrics.json'' w5 of
                               (Inl e, w6) \<Rightarrow> (Inl e, w6)
                             | (Inr _, w6) \<Rightarrow> (Inr (), log (Print ''Done.'') w6))))))"

text \<open>
  The module body and the \<^verbatim>\<open>__main__\<close> guard. \<^verbatim>\<open>os.environ["GCP_PROJECT_ID"]\<close> is read at
  module level, before the \<^verbatim>\<open>try\<close> of the guard is entered; the handler of the guard covers
  only a \<^verbatim>\<open>KeyError\<close> that leaves \<^verbatim>\<open>main\<close>. An exception that nothing catches ends the
  process the way the interpreter does: the traceback goes to the error stream, its last
  line naming the exception, and the exit status is 1.
\<close>

definition py_quote :: "string \<Rightarrow> string" where
  "py_quote s = [CHR 0x27] @ s @ [CHR 0x27]"

definition exception_line :: "pyerr \<Rightarrow> string" where
  "exception_line e =
     (case e of
        KeyError k \<Rightarrow> ''KeyError: '' @ py_quote k
      | TypeError m \<Rightarrow> ''TypeError: '' @ m
      | ValueError m \<Rightarrow> ''ValueError: '' @ m
      | OSError m \<Rightarrow> ''OSError: '' @ m
      | ServiceError m \<Rightarrow> ''google.api_core.exceptions.GoogleAPIError: '' @ m)"

definition uncaught :: "pyerr \<Rightarrow> world \<Rightarrow> int \<times> world" where
  "uncaught e w = (1, log (PrintErr (exception_line e)) w)"

definition PROJECT_ID :: "host \<Rightarrow> pyerr + string" where
  "PROJECT_ID h = (case environ h ''GCP_PROJECT_ID'' of None \<Rightarrow> Inl (KeyError ''GCP_PROJECT_ID'') | Some p \<Rightarrow> Inr p)"

definition DATASET :: "host \<Rightarrow> string" where
  "DATASET h = (case environ h ''BQ_DATASET'' of None \<Rightarrow> ''tcg_price_oracle'' | Some d \<Rightarrow> d)"

definition script :: "host \<Rightarrow> world \<Rightarrow> int \<times> world" where
  "script h w =
     (case PROJECT_ID h of
        Inl e \<Rightarrow> uncaught e w
      | Inr project \<Rightarrow>
          (case main h project (DATASET h) w of
             (Inr _, w') \<Rightarrow> (0, w')
           | (Inl (KeyError k), w') \<Rightarrow>
               (1, log (PrintErr (''ERROR: missing required environment variable '' @ py_quote k)) w')
           | (Inl e, w') \<Rightarrow> uncaught e w'))"

section \<open>Worlds along a run\<close>

text \<open>Names for the two output paths, the timestamp of a run and the worlds its steps leave.\<close>

definition card_path :: string where
  "card_path = OUTPUT_DIR @ ''/'' @ ''card_metrics.json''"

definition set_path :: string where
  "set_path = OUTPUT_DIR @ ''/'' @ ''set_metrics.json''"

definition run_start :: "host \<Rightarrow> string \<Rightarrow> world \<Rightarrow> string" where
  "run_start h project w = isoformat (utcnow h (log (Connect project) w))"

definition query_line :: "string \<Rightarrow> string" where
  "query_line sql = ''Running query:'' @ [CHR 0x0A] @ strip sql @ [CHR 0x0A]"

definition written_line :: "nat \<Rightarrow> string \<Rightarrow> string" where
  "written_line n path =
     ''Written '' @ int_repr (int n) @ '' records '' @ [CHR 0xE2, CHR 0x86, CHR 0x92] @ '' '' @ path"

definition queried :: "string \<Rightarrow> world \<Rightarrow> world" where
  "queried sql w = log (Query sql) (log (Print (query_line sql)) w)"

definition dumped :: "string \<Rightarrow> row \<Rightarrow> world \<Rightarrow> world" where
  "dumped path payload w =
     (log (OpenFile path) w)\<lparr>files := (files w)(path \<mapsto> fst (iterencode 0 (PDict payload)))\<rparr>"

lemma files_log [simp]: "files (log ev w) = files w"
  by (simp add: log_def)

lemma trace_log [simp]: "trace (log ev w) = trace w @ [ev]"
  by (simp add: log_def)

lemma files_queried [simp]: "files (queried sql w) = files w"
  by (simp add: queried_def)

lemma trace_queried [simp]: "trace (queried sql w) = trace w @ [Print (query_line sql), Query sql]"
  by (simp add: queried_def)

lemma files_dumped [simp]:
  "files (dumped path payload w) = (files w)(path \<mapsto> fst (iterencode 0 (PDict payload)))"
  by (simp add: dumped_def)

lemma trace_dumped [simp]: "trace (dumped path payload w) = trace w @ [OpenFile path]"
  by (simp add: dumped_def)

lemma paths_differ: "card_path \<noteq> set_path"
  by (simp add: card_path_def set_path_def)

lemma run_query_queried: "run_query h sql w = (warehouse h sql, queried sql w)"
  by (cases "warehouse h sql") (simp_all add: run_query_def Let_def queried_def query_line_def)

lemma record_count_envelope:
  "map_of (envelope now rows) (ustr ''record_count'') = Some (PInt (int (length rows)))"
  by (simp add: envelope_def ustr_def)

lemma write_json_envelope:
  "write_json h (envelope now rows) filename w =
     (let path = OUTPUT_DIR @ ''/'' @ filename
      in if \<not> openable h path then (Inl (OSError path), w)
         else case snd (iterencode 0 (PDict (envelope now rows))) of
                Some e \<Rightarrow> (Inl e, dumped path (envelope now rows) w)
              | None \<Rightarrow> (Inr (), log (Print (written_line (length rows) path)) (dumped path (envelope now rows) w)))"
  by (simp add: write_json_def Let_def record_count_envelope dumped_def written_line_def py_str_def
           split: option.splits)

text \<open>The run of \<open>main\<close>, step by step, once the client exists.\<close>

lemma main_outcome:
  assumes "client_fault h = None"
  shows "main h project dataset w =
     (let now = run_start h project w;
          cq = CARD_METRICS_QUERY project dataset;
          sq = SET_METRICS_QUERY project dataset;
          w3 = queried cq (log ReadClock (log (Connect project) w))
      in case warehouse h cq of
           Inl e \<Rightarrow> (Inl e, w3)
         | Inr card_rows \<Rightarrow>
             if \<not> openable h card_path then (Inl (OSError card_path), w3)
             else case snd (iterencode 0 (PDict (envelope now card_rows))) of
                    Some e \<Rightarrow> (Inl e, dumped card_path (envelope now card_rows) w3)
                  | None \<Rightarrow>
                      (let w5 = queried sq (log (Print (written_line (length card_rows) card_path))
                                              (dumped card_path (envelope now card_rows) w3))
                       in case warehouse h sq of
                            Inl e \<Rightarrow> (Inl e, w5)
                          | Inr set_rows \<Rightarrow>
                              if \<not> openable h set_path then (Inl (OSError set_path), w5)
                              else case snd (iterencode 0 (PDict (envelope now set_rows))) of
                                     Some e \<Rightarrow> (Inl e, dumped set_path (envelope now set_rows) w5)
                                   | None \<Rightarrow>
                                       (Inr (), log (Print ''Done.'')
                                                  (log (Print (written_line (length set_rows) set_path))
                                                     (dumped set_path (envelope now set_rows) w5)))))"
  using assms
  by (simp add: main_def run_query_queried write_json_envelope Let_def run_start_def card_path_def set_path_def
           split: sum.splits option.splits)

text \<open>The world a run of the whole script ends in is the one \<open>main\<close> ends in, plus at most a line on the error stream.\<close>

lemma files_script:
  "PROJECT_ID h = Inr project \<Longrightarrow> files (snd (script h w)) = files (snd (main h project (DATASET h) w))"
  by (cases "main h project (DATASET h) w")
     (auto simp: script_def uncaught_def split: sum.splits pyerr.splits)


lemma files_main_card:
  assumes "client_fault h = None"
    and "warehouse h (CARD_METRICS_QUERY project dataset) = Inr card_rows"
    and "openable h card_path"
  shows "files (snd (main h project dataset w)) card_path
           = Some (fst (iterencode 0 (PDict (envelope (run_start h project w) card_rows))))"
  using assms paths_differ
  by (simp add: main_outcome Let_def split: sum.splits option.splits)

lemma files_main_set:
  assumes "client_fault h = None"
    and "warehouse h (CARD_METRICS_QUERY project dataset) = Inr card_rows"
    and "openable h card_path"
    and "snd (iterencode 0 (PDict (envelope (run_start h project w) card_rows))) = None"
    and "warehouse h (SET_METRICS_QUERY project dataset) = Inr set_rows"
    and "openable h set_path"
  shows "files (snd (main h project dataset w)) set_path
           = Some (fst (iterencode 0 (PDict (envelope (run_start h project w) set_rows))))"
  using assms
  by (simp add: main_outcome Let_def split: sum.splits option.splits)

text \<open>What a run adds to the trace, and the line that reports an exception leaving \<open>main\<close>.\<close>

definition effects :: "host \<Rightarrow> world \<Rightarrow> event list" where
  "effects h w = drop (length (trace w)) (trace (snd (script h w)))"

definition failure_line :: "pyerr \<Rightarrow> string" where
  "failure_line e =
     (case e of
        KeyError k \<Rightarrow> ''ERROR: missing required environment variable '' @ py_quote k
      | _ \<Rightarrow> exception_line e)"

definition is_query :: "event \<Rightarrow> bool" where
  "is_query ev = (case ev of Query _ \<Rightarrow> True | _ \<Rightarrow> False)"

definition is_io :: "event \<Rightarrow> bool" where
  "is_io ev = (case ev of Query _ \<Rightarrow> True | OpenFile _ \<Rightarrow> True | _ \<Rightarrow> False)"

lemma script_main:
  "PROJECT_ID h = Inr project \<Longrightarrow>
   script h w =
     (case main h project (DATASET h) w of
        (Inr u, w') \<Rightarrow> (0, w')
      | (Inl e, w') \<Rightarrow> (1, log (PrintErr (failure_line e)) w'))"
  by (cases "main h project (DATASET h) w")
     (auto simp: script_def uncaught_def failure_line_def split: sum.splits pyerr.splits)

lemma script_no_project:
  "environ h ''GCP_PROJECT_ID'' = None \<Longrightarrow>
   script h w = (1, log (PrintErr (''KeyError: '' @ py_quote ''GCP_PROJECT_ID'')) w)"
  by (simp add: script_def PROJECT_ID_def uncaught_def exception_line_def)

lemma queries_differ: "CARD_METRICS_QUERY project dataset \<noteq> SET_METRICS_QUERY project dataset"
  by (simp add: SET_METRICS_QUERY_def CARD_METRICS_QUERY_def text_lines_def)

text \<open>A run in which both jobs complete.\<close>

definition both_jobs_complete :: "host \<Rightarrow> string \<Rightarrow> world \<Rightarrow> row list \<Rightarrow> row list \<Rightarrow> bool" where
  "both_jobs_complete h project w card_rows set_rows =
     (PROJECT_ID h = Inr project \<and> client_fault h = None
      \<and> warehouse h (CARD_METRICS_QUERY project (DATASET h)) = Inr card_rows
      \<and> openable h card_path
      \<and> serializable (PDict (envelope (run_start h project w) card_rows))
      \<and> warehouse h (SET_METRICS_QUERY project (DATASET h)) = Inr set_rows
      \<and> openable h set_path
      \<and> serializable (PDict (envelope (run_start h project w) set_rows)))"

lemma script_complete:
  assumes "both_jobs_complete h project w card_rows set_rows"
  shows "script h w =
     (0, log (Print ''Done.'')
           (log (Print (written_line (length set_rows) set_path))
              (dumped set_path (envelope (run_start h project w) set_rows)
                 (queried (SET_METRICS_QUERY project (DATASET h))
                    (log (Print (written_line (length card_rows) card_path))
                       (dumped card_path (envelope (run_start h project w) card_rows)
                          (queried (CARD_METRICS_QUERY project (DATASET h))
                             (log ReadClock (log (Connect project) w)))))))))"
proof -
  have enc: "snd (iterencode 0 (PDict (envelope (run_start h project w) card_rows))) = None"
    "snd (iterencode 0 (PDict (envelope (run_start h project w) set_rows))) = None"
    using assms by (simp_all only: both_jobs_complete_def serializable_iff)
  have run: "PROJECT_ID h = Inr project" "client_fault h = None"
    "warehouse h (CARD_METRICS_QUERY project (DATASET h)) = Inr card_rows" "openable h card_path"
    "warehouse h (SET_METRICS_QUERY project (DATASET h)) = Inr set_rows" "openable h set_path"
    using assms by (simp_all only: both_jobs_complete_def)
  show ?thesis
    by (simp add: script_main [OF run(1)] main_outcome [OF run(2)] Let_def enc run)
qed

lemma effects_complete:
  assumes "both_jobs_complete h project w card_rows set_rows"
  shows "effects h w =
     [Connect project, ReadClock,
      Print (query_line (CARD_METRICS_QUERY project (DATASET h))), Query (CARD_METRICS_QUERY project (DATASET h)),
      OpenFile card_path, Print (written_line (length card_rows) card_path),
      Print (query_line (SET_METRICS_QUERY project (DATASET h))), Query (SET_METRICS_QUERY project (DATASET h)),
      OpenFile set_path, Print (written_line (length set_rows) set_path),
      Print ''Done.'']"
  by (simp add: effects_def script_complete [OF assms])

lemma files_complete:
  assumes "both_jobs_complete h project w card_rows set_rows"
  shows "files (snd (script h w)) =
     (files w)(card_path \<mapsto> fst (iterencode 0 (PDict (envelope (run_start h project w) card_rows))),
               set_path \<mapsto> fst (iterencode 0 (PDict (envelope (run_start h project w) set_rows))))"
  by (simp add: script_complete [OF assms])

lemma script_card_query_fails:
  assumes "PROJECT_ID h = Inr project" and "client_fault h = None"
    and "warehouse h (CARD_METRICS_QUERY project (DATASET h)) = Inl e"
  shows "script h w =
     (1, log (PrintErr (failure_line e))
           (queried (CARD_METRICS_QUERY project (DATASET h)) (log ReadClock (log (Connect project) w))))"
  using assms by (simp add: script_main main_outcome Let_def)

text \<open>Facts about every run that gets as far as creating the client.\<close>

lemma io_effects_in_order:
  assumes "PROJECT_ID h = Inr project" and "client_fault h = None"
  shows "filter is_io (effects h w) =
           take (length (filter is_io (effects h w)))
             [Query (CARD_METRICS_QUERY project (DATASET h)), OpenFile card_path,
              Query (SET_METRICS_QUERY project (DATASET h)), OpenFile set_path]"
  by (simp add: effects_def script_main [OF assms(1)] main_outcome [OF assms(2)] Let_def is_io_def
           split: sum.splits option.splits)

lemma second_query_after_first_file:
  assumes "PROJECT_ID h = Inr project" and "client_fault h = None"
    and "Query (SET_METRICS_QUERY project (DATASET h)) \<in> set (effects h w)"
  shows "case warehouse h (CARD_METRICS_QUERY project (DATASET h)) of
           Inl e \<Rightarrow> False
         | Inr card_rows \<Rightarrow>
             snd (iterencode 0 (PDict (envelope (run_start h project w) card_rows))) = None
             \<and> files (snd (script h w)) card_path
                 = Some (fst (iterencode 0 (PDict (envelope (run_start h project w) card_rows))))"
  using assms(3) queries_differ [of project "DATASET h"] paths_differ
  by (auto simp: effects_def script_main [OF assms(1)] main_outcome [OF assms(2)] Let_def
           split: sum.splits option.splits if_splits)

lemma clock_read_once:
  assumes "PROJECT_ID h = Inr project" and "client_fault h = None"
  shows "filter (\<lambda>ev. ev = ReadClock) (effects h w) = [ReadClock]
         \<and> takeWhile (\<lambda>ev. \<not> is_query ev) (effects h w)
             = [Connect project, ReadClock, Print (query_line (CARD_METRICS_QUERY project (DATASET h)))]"
  by (simp add: effects_def script_main [OF assms(1)] main_outcome [OF assms(2)] Let_def is_query_def
           split: sum.splits option.splits)

text \<open>A run whose rows hold a value the encoder cannot write.\<close>

lemma unserializable_row_value:
  "row \<in> set rows \<Longrightarrow> (k, v) \<in> set row \<Longrightarrow> \<not> serializable v
   \<Longrightarrow> \<not> serializable (PDict (envelope now rows))"
  by (auto simp: envelope_def list_all_iff)

lemma script_card_not_serializable:
  assumes "PROJECT_ID h = Inr project" and "client_fault h = None"
    and "warehouse h (CARD_METRICS_QUERY project (DATASET h)) = Inr card_rows"
    and "\<not> serializable (PDict (envelope (run_start h project w) card_rows))"
  shows "fst (script h w) = 1
       \<and> Query (SET_METRICS_QUERY project (DATASET h)) \<notin> set (effects h w)
       \<and> OpenFile set_path \<notin> set (effects h w)"
proof -
  obtain e where e: "snd (iterencode 0 (PDict (envelope (run_start h project w) card_rows))) = Some e"
    using assms(4) serializable_iff [of 0 "PDict (envelope (run_start h project w) card_rows)"]
    by (cases "snd (iterencode 0 (PDict (envelope (run_start h project w) card_rows)))") simp_all
  show ?thesis
    using queries_differ [of project "DATASET h"] paths_differ
    by (simp add: effects_def script_main [OF assms(1)] main_outcome [OF assms(2)] Let_def assms(3) e)
qed

lemma script_set_not_serializable:
  assumes "PROJECT_ID h = Inr project" and "client_fault h = None"
    and "warehouse h (CARD_METRICS_QUERY project (DATASET h)) = Inr card_rows"
    and "warehouse h (SET_METRICS_QUERY project (DATASET h)) = Inr set_rows"
    and "\<not> serializable (PDict (envelope (run_start h project w) set_rows))"
  shows "fst (script h w) = 1"
proof -
  obtain e where e: "snd (iterencode 0 (PDict (envelope (run_start h project w) set_rows))) = Some e"
    using assms(5) serializable_iff [of 0 "PDict (envelope (run_start h project w) set_rows)"]
    by (cases "snd (iterencode 0 (PDict (envelope (run_start h project w) set_rows)))") simp_all
  show ?thesis
    by (simp add: script_main [OF assms(1)] main_outcome [OF assms(2)] Let_def assms(3,4) e
             split: option.splits)
qed

section \<open>A concrete run\<close>

text \<open>
  A host used to run the definitions on: the project is set, the dataset is left to its
  default, the card query returns one row with a \<^verbatim>\<open>Decimal\<close> price and the set query
  returns no rows.
\<close>

definition demo_card_rows :: "row list" where
  "demo_card_rows =
     [[(ustr ''set_id'', PStr (ustr ''SV1'')), (ustr ''month'', PStr (ustr ''2024-01'')),
       (ustr ''card_number'', PStr (ustr ''001'')), (ustr ''raw_price'', PDecimal (Dec False 1250 (- 2)))]]"

definition demo_clock :: "nat \<Rightarrow> datetime" where
  "demo_clock n = \<lparr>year = 2024, month = 1, day = 5, hour = 3, minute = 4, second = n, microsecond = 0, utcoffset = None\<rparr>"

definition demo_host :: host where
  "demo_host =
     \<lparr>environ = [''GCP_PROJECT_ID'' \<mapsto> ''demo''],
      client_fault = None,
      warehouse = (\<lambda>sql. if sql = CARD_METRICS_QUERY ''demo'' ''tcg_price_oracle'' then Inr demo_card_rows else Inr []),
      clock = demo_clock,
      openable = (\<lambda>path. True)\<rparr>"

definition empty_world :: world where
  "empty_world = \<lparr>files = Map.empty, trace = []\<rparr>"

lemma demo_dataset: "DATASET demo_host = ''tcg_price_oracle''"
  by (simp add: DATASET_def demo_host_def)

lemma demo_queries_differ:
  "SET_METRICS_QUERY ''demo'' ''tcg_price_oracle'' \<noteq> CARD_METRICS_QUERY ''demo'' ''tcg_price_oracle''"
  by (simp add: SET_METRICS_QUERY_def CARD_METRICS_QUERY_def text_lines_def)

lemma demo_card_encodes:
  "snd (iterencode 0 (PDict (envelope (run_start demo_host ''demo'' empty_world) demo_card_rows))) = None"
  by (simp add: serializable_iff envelope_def demo_card_rows_def)

lemma demo_project: "PROJECT_ID demo_host = Inr ''demo''"
  by (simp add: PROJECT_ID_def demo_host_def)

lemma demo_complete: "both_jobs_complete demo_host ''demo'' empty_world demo_card_rows []"
  using demo_queries_differ
  by (simp add: both_jobs_complete_def demo_project demo_dataset)
     (simp add: demo_host_def envelope_def demo_card_rows_def)

lemma demo_client: "client_fault demo_host = None"
  by (simp add: demo_host_def)

lemma demo_openable: "openable demo_host path"
  by (simp add: demo_host_def)

lemma demo_card_query: "warehouse demo_host (CARD_METRICS_QUERY ''demo'' (DATASET demo_host)) = Inr demo_card_rows"
  unfolding demo_dataset by (simp add: demo_host_def)

lemma demo_set_query: "warehouse demo_host (SET_METRICS_QUERY ''demo'' (DATASET demo_host)) = Inr []"
  unfolding demo_dataset using demo_queries_differ by (simp add: demo_host_def)

lemma demo_start: "run_start demo_host ''demo'' empty_world = ''2024-01-05T03:04:01+00:00''"
  by code_simp

text \<open>
  A second host for the same data: another project and dataset, a clock that stands
  still, and a world that already holds an older card file.
\<close>

definition other_host :: host where
  "other_host =
     \<lparr>environ = [''GCP_PROJECT_ID'' \<mapsto> ''other'', ''BQ_DATASET'' \<mapsto> ''staging''],
      client_fault = None,
      warehouse = (\<lambda>sql. if sql = CARD_METRICS_QUERY ''other'' ''staging'' then Inr demo_card_rows else Inr []),
      clock = (\<lambda>n. demo_clock 1),
      openable = (\<lambda>path. True)\<rparr>"

definition used_world :: world where
  "used_world = \<lparr>files = [card_path \<mapsto> ''{}''], trace = [Print ''earlier run'']\<rparr>"

text \<open>The same host without the project variable, and with a warehouse that rejects every query.\<close>

definition unconfigured_host :: host where
  "unconfigured_host = demo_host\<lparr>environ := Map.empty\<rparr>"

definition rejecting_host :: host where
  "rejecting_host = demo_host\<lparr>warehouse := (\<lambda>sql. Inl (ServiceError ''403 Access Denied''))\<rparr>"

text \<open>A warehouse whose rows hold a \<^verbatim>\<open>bytes\<close> value.\<close>

definition bytes_host :: host where
  "bytes_host = demo_host\<lparr>warehouse := (\<lambda>sql. Inr [[(ustr ''icon'', PObject ''bytes'')]])\<rparr>"

section \<open>The claims\<close>





text \<open>
  C3. Without \<^verbatim>\<open>GCP_PROJECT_ID\<close> in the environment the run never begins: the only
  effect is one line on the error stream, which names the variable; no client is
  created, no query is run, no file is opened or changed, and the exit status is not
  zero. The line is the interpreter's report of the uncaught \<^verbatim>\<open>KeyError\<close>, raised by the
  module-level lookup before the guarded call of \<^verbatim>\<open>main\<close>.
\<close>

theorem missing_project_id_stops_run:
  assumes "environ h ''GCP_PROJECT_ID'' = None"
  shows "fst (script h w) \<noteq> 0
       \<and> files (snd (script h w)) = files w
       \<and> effects h w = [PrintErr (''KeyError: '' @ py_quote ''GCP_PROJECT_ID'')]"
  by (simp add: script_no_project [OF assms] effects_def)

theorem missing_project_id_stops_run_witness:
  "fst (script unconfigured_host empty_world) \<noteq> 0
   \<and> files (snd (script unconfigured_host empty_world)) = Map.empty
   \<and> effects unconfigured_host empty_world = [PrintErr (''KeyError: '' @ py_quote ''GCP_PROJECT_ID'')]"
  using missing_project_id_stops_run [of unconfigured_host empty_world]
  by (simp add: unconfigured_host_def empty_world_def)

text \<open>
  C4. When the first query fails, the run ends with a non-zero exit status after that
  query: no file is opened or changed and the second query is not run. In every run the
  queries and file writes happen in the one order card query, card file, set query, set
  file, and the set query is only run once the card file holds its complete envelope.
\<close>

theorem first_query_failure_aborts_run:
  assumes "PROJECT_ID h = Inr project" and "client_fault h = None"
  shows "(\<forall>e. warehouse h (CARD_METRICS_QUERY project (DATASET h)) = Inl e \<longrightarrow>
            fst (script h w) \<noteq> 0
            \<and> files (snd (script h w)) = files w
            \<and> effects h w =
                [Connect project, ReadClock,
                 Print (query_line (CARD_METRICS_QUERY project (DATASET h))),
                 Query (CARD_METRICS_QUERY project (DATASET h)),
                 PrintErr (failure_line e)])
       \<and> filter is_io (effects h w) =
            take (length (filter is_io (effects h w)))
              [Query (CARD_METRICS_QUERY project (DATASET h)), OpenFile card_path,
               Query (SET_METRICS_QUERY project (DATASET h)), OpenFile set_path]
       \<and> (Query (SET_METRICS_QUERY project (DATASET h)) \<in> set (effects h w) \<longrightarrow>
            (case warehouse h (CARD_METRICS_QUERY project (DATASET h)) of
               Inl e \<Rightarrow> False
             | Inr card_rows \<Rightarrow>
                 snd (iterencode 0 (PDict (envelope (run_start h project w) card_rows))) = None
                 \<and> files (snd (script h w)) card_path
                     = Some (fst (iterencode 0 (PDict (envelope (run_start h project w) card_rows))))))"
proof (intro conjI allI impI)
  fix e
  assume fails: "warehouse h (CARD_METRICS_QUERY project (DATASET h)) = Inl e"
  note run = script_card_query_fails [OF assms fails, of w]
  show "fst (script h w) \<noteq> 0"
    by (simp add: run)
  show "files (snd (script h w)) = files w"
    by (simp add: run)
  show "effects h w =
          [Connect project, ReadClock,
           Print (query_line (CARD_METRICS_QUERY project (DATASET h))),
           Query (CARD_METRICS_QUERY project (DATASET h)),
           PrintErr (failure_line e)]"
    by (simp add: run effects_def)
next
  show "filter is_io (effects h w) =
          take (length (filter is_io (effects h w)))
            [Query (CARD_METRICS_QUERY project (DATASET h)), OpenFile card_path,
             Query (SET_METRICS_QUERY project (DATASET h)), OpenFile set_path]"
    by (rule io_effects_in_order [OF assms])
next
  assume "Query (SET_METRICS_QUERY project (DATASET h)) \<in> set (effects h w)"
  then show "case warehouse h (CARD_METRICS_QUERY project (DATASET h)) of
               Inl e \<Rightarrow> False
             | Inr card_rows \<Rightarrow>
                 snd (iterencode 0 (PDict (envelope (run_start h project w) card_rows))) = None
                 \<and> files (snd (script h w)) card_path
                     = Some (fst (iterencode 0 (PDict (envelope (run_start h project w) card_rows))))"
    by (rule second_query_after_first_file [OF assms])
qed

theorem first_query_failure_aborts_run_witness:
  "fst (script rejecting_host empty_world) \<noteq> 0
   \<and> files (snd (script rejecting_host empty_world)) = Map.empty
   \<and> effects rejecting_host empty_world =
       [Connect ''demo'', ReadClock,
        Print (query_line (CARD_METRICS_QUERY ''demo'' ''tcg_price_oracle'')),
        Query (CARD_METRICS_QUERY ''demo'' ''tcg_price_oracle''),
        PrintErr ''google.api_core.exceptions.GoogleAPIError: 403 Access Denied'']
   \<and> filter is_io (effects demo_host empty_world) =
       [Query (CARD_METRICS_QUERY ''demo'' ''tcg_price_oracle''), OpenFile card_path,
        Query (SET_METRICS_QUERY ''demo'' ''tcg_price_oracle''), OpenFile set_path]
   \<and> files (snd (script demo_host empty_world)) card_path
       = Some (fst (iterencode 0 (PDict (envelope (run_start demo_host ''demo'' empty_world) demo_card_rows))))"
proof -
  have p: "PROJECT_ID rejecting_host = Inr ''demo''" and c: "client_fault rejecting_host = None"
    and d: "DATASET rejecting_host = ''tcg_price_oracle''"
    and f: "warehouse rejecting_host (CARD_METRICS_QUERY ''demo'' ''tcg_price_oracle'') = Inl (ServiceError ''403 Access Denied'')"
    by (simp_all add: rejecting_host_def demo_host_def PROJECT_ID_def DATASET_def)
  have c': "client_fault demo_host = None"
    by (simp add: demo_host_def)
  have q: "warehouse demo_host (CARD_METRICS_QUERY ''demo'' ''tcg_price_oracle'') = Inr demo_card_rows"
    by (simp add: demo_host_def)
  have io: "filter is_io (effects demo_host empty_world) =
       [Query (CARD_METRICS_QUERY ''demo'' ''tcg_price_oracle''), OpenFile card_path,
        Query (SET_METRICS_QUERY ''demo'' ''tcg_price_oracle''), OpenFile set_path]"
    by (simp add: effects_complete [OF demo_complete] demo_dataset is_io_def)
  from first_query_failure_aborts_run [OF p c, of empty_world] f
  have 1: "fst (script rejecting_host empty_world) \<noteq> 0
     \<and> files (snd (script rejecting_host empty_world)) = Map.empty
     \<and> effects rejecting_host empty_world =
         [Connect ''demo'', ReadClock,
          Print (query_line (CARD_METRICS_QUERY ''demo'' ''tcg_price_oracle'')),
          Query (CARD_METRICS_QUERY ''demo'' ''tcg_price_oracle''),
          PrintErr ''google.api_core.exceptions.GoogleAPIError: 403 Access Denied'']"
    by (simp add: d failure_line_def exception_line_def empty_world_def)
  have m: "Query (SET_METRICS_QUERY ''demo'' ''tcg_price_oracle'') \<in> set (effects demo_host empty_world)"
    by (simp add: effects_complete [OF demo_complete] demo_dataset)
  from first_query_failure_aborts_run [OF demo_project c', of empty_world] m q
  have 2: "files (snd (script demo_host empty_world)) card_path
       = Some (fst (iterencode 0 (PDict (envelope (run_start demo_host ''demo'' empty_world) demo_card_rows))))"
    by (simp add: demo_dataset)
  from 1 2 io show ?thesis by simp
qed

text \<open>
  C5. When a run writes both files, the two envelopes carry the same \<open>last_updated\<close>:
  the clock is read once, after the client is created and before the first query, and
  that reading is the timestamp of both jobs.
\<close>

theorem last_updated_shared:
  assumes "PROJECT_ID h = Inr project" and "client_fault h = None"
    and "warehouse h (CARD_METRICS_QUERY project (DATASET h)) = Inr card_rows"
    and "openable h card_path"
    and "snd (iterencode 0 (PDict (envelope (run_start h project w) card_rows))) = None"
    and "warehouse h (SET_METRICS_QUERY project (DATASET h)) = Inr set_rows"
    and "openable h set_path"
  shows "files (snd (script h w)) card_path =
           Some (fst (iterencode 0 (PDict
             [(ustr ''last_updated'', PStr (ustr (isoformat (utcnow h (log (Connect project) w))))),
              (ustr ''record_count'', PInt (int (length card_rows))),
              (ustr ''data'', PList (map PDict card_rows))])))
       \<and> files (snd (script h w)) set_path =
           Some (fst (iterencode 0 (PDict
             [(ustr ''last_updated'', PStr (ustr (isoformat (utcnow h (log (Connect project) w))))),
              (ustr ''record_count'', PInt (int (length set_rows))),
              (ustr ''data'', PList (map PDict set_rows))])))
       \<and> filter (\<lambda>ev. ev = ReadClock) (effects h w) = [ReadClock]
       \<and> takeWhile (\<lambda>ev. \<not> is_query ev) (effects h w)
           = [Connect project, ReadClock, Print (query_line (CARD_METRICS_QUERY project (DATASET h)))]"
proof (intro conjI)
  show "files (snd (script h w)) card_path =
           Some (fst (iterencode 0 (PDict
             [(ustr ''last_updated'', PStr (ustr (isoformat (utcnow h (log (Connect project) w))))),
              (ustr ''record_count'', PInt (int (length card_rows))),
              (ustr ''data'', PList (map PDict card_rows))])))"
    using files_main_card [OF assms(2-4), of w]
    by (simp add: files_script [OF assms(1)] envelope_def run_start_def)
  show "files (snd (script h w)) set_path =
           Some (fst (iterencode 0 (PDict
             [(ustr ''last_updated'', PStr (ustr (isoformat (utcnow h (log (Connect project) w))))),
              (ustr ''record_count'', PInt (int (length set_rows))),
              (ustr ''data'', PList (map PDict set_rows))])))"
    using files_main_set [OF assms(2-7)]
    by (simp add: files_script [OF assms(1)] envelope_def run_start_def)
  show "filter (\<lambda>ev. ev = ReadClock) (effects h w) = [ReadClock]"
    using clock_read_once [OF assms(1,2), of w] by simp
  show "takeWhile (\<lambda>ev. \<not> is_query ev) (effects h w)
           = [Connect project, ReadClock, Print (query_line (CARD_METRICS_QUERY project (DATASET h)))]"
    using clock_read_once [OF assms(1,2), of w] by simp
qed

theorem last_updated_shared_witness:
  "files (snd (script demo_host empty_world)) card_path =
     Some (fst (iterencode 0 (PDict
       [(ustr ''last_updated'', PStr (ustr ''2024-01-05T03:04:01+00:00'')),
        (ustr ''record_count'', PInt 1),
        (ustr ''data'', PList (map PDict demo_card_rows))])))
   \<and> files (snd (script demo_host empty_world)) set_path =
     Some (fst (iterencode 0 (PDict
       [(ustr ''last_updated'', PStr (ustr ''2024-01-05T03:04:01+00:00'')),
        (ustr ''record_count'', PInt 0),
        (ustr ''data'', PList [])])))
   \<and> filter (\<lambda>ev. ev = ReadClock) (effects demo_host empty_world) = [ReadClock]"
proof -
  have n: "length demo_card_rows = 1"
    by (simp add: demo_card_rows_def)
  show ?thesis
    using last_updated_shared [OF demo_project demo_client demo_card_query demo_openable demo_card_encodes
        demo_set_query demo_openable] demo_start n
    by (simp add: run_start_def)
qed



text \<open>
  C10. What a run writes depends only on the rows and the timestamp. Two runs that get
  the same rows for each query and read the same timestamp leave the same text in each
  output file and end with the same exit status, whatever else differs between them
  (project, dataset, what the files held before).
\<close>

theorem written_text_is_deterministic:
  assumes "PROJECT_ID h1 = Inr p1" and "PROJECT_ID h2 = Inr p2"
    and "client_fault h1 = None" and "client_fault h2 = None"
    and "warehouse h1 (CARD_METRICS_QUERY p1 (DATASET h1)) = Inr card_rows"
    and "warehouse h2 (CARD_METRICS_QUERY p2 (DATASET h2)) = Inr card_rows"
    and "warehouse h1 (SET_METRICS_QUERY p1 (DATASET h1)) = Inr set_rows"
    and "warehouse h2 (SET_METRICS_QUERY p2 (DATASET h2)) = Inr set_rows"
    and "run_start h1 p1 w1 = run_start h2 p2 w2"
    and "openable h1 card_path" and "openable h2 card_path"
    and "openable h1 set_path" and "openable h2 set_path"
  shows "files (snd (script h1 w1)) card_path = files (snd (script h2 w2)) card_path
       \<and> (serializable (PDict (envelope (run_start h1 p1 w1) card_rows)) \<longrightarrow>
            files (snd (script h1 w1)) set_path = files (snd (script h2 w2)) set_path)
       \<and> fst (script h1 w1) = fst (script h2 w2)"
proof (intro conjI impI)
  show "files (snd (script h1 w1)) card_path = files (snd (script h2 w2)) card_path"
    using files_main_card [OF assms(3) assms(5) assms(10), of w1]
      files_main_card [OF assms(4) assms(6) assms(11), of w2] assms(9)
    by (simp add: files_script [OF assms(1)] files_script [OF assms(2)])
  show "fst (script h1 w1) = fst (script h2 w2)"
    using assms(5-13)
    by (simp add: script_main [OF assms(1)] script_main [OF assms(2)]
          main_outcome [OF assms(3)] main_outcome [OF assms(4)] Let_def split: option.splits)
next
  assume "serializable (PDict (envelope (run_start h1 p1 w1) card_rows))"
  then have ok: "snd (iterencode 0 (PDict (envelope (run_start h1 p1 w1) card_rows))) = None"
    by (simp only: serializable_iff)
  then have ok': "snd (iterencode 0 (PDict (envelope (run_start h2 p2 w2) card_rows))) = None"
    using assms(9) by simp
  show "files (snd (script h1 w1)) set_path = files (snd (script h2 w2)) set_path"
    using files_main_set [OF assms(3) assms(5) assms(10) ok assms(7) assms(12)]
      files_main_set [OF assms(4) assms(6) assms(11) ok' assms(8) assms(13)] assms(9)
    by (simp add: files_script [OF assms(1)] files_script [OF assms(2)])
qed

theorem written_text_is_deterministic_witness:
  "files (snd (script demo_host empty_world)) card_path = files (snd (script other_host used_world)) card_path
   \<and> files (snd (script demo_host empty_world)) set_path = files (snd (script other_host used_world)) set_path
   \<and> fst (script demo_host empty_world) = fst (script other_host used_world)"
proof -
  have p: "PROJECT_ID other_host = Inr ''other''" and d: "DATASET other_host = ''staging''"
    and c: "client_fault other_host = None" and o: "\<And>path. openable other_host path"
    by (simp_all add: other_host_def PROJECT_ID_def DATASET_def)
  have q: "warehouse other_host (CARD_METRICS_QUERY ''other'' (DATASET other_host)) = Inr demo_card_rows"
    unfolding d by (simp add: other_host_def)
  have q': "warehouse other_host (SET_METRICS_QUERY ''other'' (DATASET other_host)) = Inr []"
    unfolding d using queries_differ [of "''other''" "''staging''"] by (simp add: other_host_def)
  have t: "run_start demo_host ''demo'' empty_world = run_start other_host ''other'' used_world"
    by (simp add: run_start_def utcnow_def demo_host_def other_host_def empty_world_def used_world_def)
  have s: "serializable (PDict (envelope (run_start demo_host ''demo'' empty_world) demo_card_rows))"
    using demo_card_encodes by (simp only: serializable_iff)
  show ?thesis
    using written_text_is_deterministic [OF demo_project p demo_client c demo_card_query q demo_set_query q' t
        demo_openable o demo_openable o] s
    by blast
qed



text \<open>
  C6, as stated, fails: a value whose type is none of the listed ones can still be
  written. An object of some class \<open>Tag\<close> whose \<^verbatim>\<open>isoformat()\<close> returns \<^verbatim>\<open>"x"\<close> is written as
  that string, and a list is written as a JSON array.
\<close>

theorem listed_types_counterexample:
  "\<not> listed_convertible (PDuck ''Tag'' (Returns (PStr (ustr ''x''))))
   \<and> iterencode 0 (PDuck ''Tag'' (Returns (PStr (ustr ''x'')))) = ([CHR 0x22, CHR ''x'', CHR 0x22], None)
   \<and> \<not> listed_convertible (PList [PInt 1])
   \<and> snd (iterencode 0 (PList [PInt 1])) = None"
  by (simp add: listed_convertible_def is_scalar_def iterencode.simps default_def call_isoformat_def
        encode_basestring_ascii_def escape_cp_def ustr_def say_def char_of_def bit_Suc_0_iff serializable_iff)

text \<open>
  C6, amended. A value that is not JSON-native, not a \<^verbatim>\<open>Decimal\<close>, not a \<^verbatim>\<open>datetime\<close> and
  has no attribute \<^verbatim>\<open>isoformat\<close> is not converted: the encoder raises the \<^verbatim>\<open>TypeError\<close> of
  \<^verbatim>\<open>JSONEncoder.default\<close> for it. A run whose card rows hold such a value ends with a
  non-zero exit status before the set job; one in the set rows ends the run with a
  non-zero status as well.
\<close>

theorem unconvertible_value_aborts_run:
  "iterencode lvl (PObject cls) = ([], Some (TypeError (''Object of type '' @ cls @ '' is not JSON serializable'')))
   \<and> json_safe (PObject cls) = PObject cls
   \<and> (PROJECT_ID h = Inr project \<longrightarrow> client_fault h = None
        \<longrightarrow> warehouse h (CARD_METRICS_QUERY project (DATASET h)) = Inr card_rows
        \<longrightarrow> row \<in> set card_rows \<longrightarrow> (k, PObject cls) \<in> set row
        \<longrightarrow> fst (script h w) \<noteq> 0
            \<and> Query (SET_METRICS_QUERY project (DATASET h)) \<notin> set (effects h w)
            \<and> OpenFile set_path \<notin> set (effects h w))
   \<and> (PROJECT_ID h = Inr project \<longrightarrow> client_fault h = None
        \<longrightarrow> warehouse h (CARD_METRICS_QUERY project (DATASET h)) = Inr card_rows
        \<longrightarrow> warehouse h (SET_METRICS_QUERY project (DATASET h)) = Inr set_rows
        \<longrightarrow> row \<in> set set_rows \<longrightarrow> (k, PObject cls) \<in> set row
        \<longrightarrow> fst (script h w) \<noteq> 0)"
proof (intro conjI impI)
  show "iterencode lvl (PObject cls) = ([], Some (TypeError (''Object of type '' @ cls @ '' is not JSON serializable'')))"
    by (simp add: iterencode.simps default_def type_name_def)
  show "json_safe (PObject cls) = PObject cls"
    by (simp add: json_safe.simps default_def)
next
  assume run: "PROJECT_ID h = Inr project" "client_fault h = None"
    "warehouse h (CARD_METRICS_QUERY project (DATASET h)) = Inr card_rows"
    and v: "row \<in> set card_rows" "(k, PObject cls) \<in> set row"
  have "\<not> serializable (PDict (envelope (run_start h project w) card_rows))"
    using v by (rule unserializable_row_value) simp
  note * = script_card_not_serializable [OF run this]
  from * show "fst (script h w) \<noteq> 0" by simp
  from * show "Query (SET_METRICS_QUERY project (DATASET h)) \<notin> set (effects h w)" by simp
  from * show "OpenFile set_path \<notin> set (effects h w)" by simp
next
  assume run: "PROJECT_ID h = Inr project" "client_fault h = None"
    "warehouse h (CARD_METRICS_QUERY project (DATASET h)) = Inr card_rows"
    "warehouse h (SET_METRICS_QUERY project (DATASET h)) = Inr set_rows"
    and v: "row \<in> set set_rows" "(k, PObject cls) \<in> set row"
  have "\<not> serializable (PDict (envelope (run_start h project w) set_rows))"
    using v by (rule unserializable_row_value) simp
  from script_set_not_serializable [OF run this] show "fst (script h w) \<noteq> 0" by simp
qed

theorem unconvertible_value_aborts_run_witness:
  "iterencode 2 (PObject ''bytes'') = ([], Some (TypeError ''Object of type bytes is not JSON serializable''))
   \<and> fst (script bytes_host empty_world) \<noteq> 0
   \<and> Query (SET_METRICS_QUERY ''demo'' ''tcg_price_oracle'') \<notin> set (effects bytes_host empty_world)
   \<and> OpenFile set_path \<notin> set (effects bytes_host empty_world)"
proof -
  have p: "PROJECT_ID bytes_host = Inr ''demo''" and c: "client_fault bytes_host = None"
    and d: "DATASET bytes_host = ''tcg_price_oracle''"
    by (simp_all add: bytes_host_def demo_host_def PROJECT_ID_def DATASET_def)
  have q: "warehouse bytes_host (CARD_METRICS_QUERY ''demo'' (DATASET bytes_host)) = Inr [[(ustr ''icon'', PObject ''bytes'')]]"
    by (simp add: bytes_host_def)
  show ?thesis
    using unconvertible_value_aborts_run [of 2 "''bytes''" bytes_host "''demo''" "[[(ustr ''icon'', PObject ''bytes'')]]"
        "[(ustr ''icon'', PObject ''bytes'')]" "ustr ''icon''" empty_world "[]"] p c q
    by (simp add: d)
qed

text \<open>
  C9, as stated, fails: having an attribute named \<^verbatim>\<open>isoformat\<close> is not enough. When the
  attribute is not callable (a class that stores a string under that name), the call
  in \<open>default\<close> raises and serialization fails.
\<close>

theorem isoformat_attribute_counterexample:
  "default (PDuck ''Tag'' (NotCallable ''str'')) = Inl (TypeError (py_quote ''str'' @ '' object is not callable''))
   \<and> iterencode 0 (PDuck ''Tag'' (NotCallable ''str''))
       = ([], Some (TypeError (py_quote ''str'' @ '' object is not callable'')))
   \<and> \<not> serializable (PDuck ''Tag'' (NotCallable ''str''))"
  by (simp add: iterencode.simps default_def call_isoformat_def py_quote_def)

text \<open>
  C9, amended. For an object that is neither JSON-native nor a \<^verbatim>\<open>Decimal\<close> nor a
  \<^verbatim>\<open>datetime\<close> and has an attribute \<^verbatim>\<open>isoformat\<close>, the encoder writes what calling it
  returns: the string, for any class whose call returns a string, date or time or not.
  A call that returns another value has that value written in its place; when the
  attribute is not callable or the call raises, serialization fails with that exception.
\<close>

theorem isoformat_duck_typing:
  "default (PDuck cls a) = call_isoformat a
   \<and> iterencode lvl (PDuck cls (Returns (PStr s))) = say (encode_basestring_ascii s)
   \<and> json_safe (PDuck cls (Returns (PStr s))) = PStr s
   \<and> iterencode lvl (PDuck cls (Returns v)) = iterencode lvl v
   \<and> iterencode lvl (PDuck cls (NotCallable ty))
       = ([], Some (TypeError (py_quote ty @ '' object is not callable'')))
   \<and> iterencode lvl (PDuck cls (Raises e)) = ([], Some e)"
  by (simp add: iterencode.simps json_safe.simps default_def call_isoformat_def py_quote_def)

theorem isoformat_duck_typing_witness:
  "iterencode 0 (PDuck ''Tag'' (Returns (PStr (ustr ''x'')))) = say (encode_basestring_ascii (ustr ''x''))
   \<and> iterencode 0 (py_date 2024 1 5) = say (encode_basestring_ascii (ustr (date_isoformat 2024 1 5)))"
  using isoformat_duck_typing [of "''Tag''" undefined 0 "ustr ''x''" PNone undefined undefined]
    isoformat_duck_typing [of "''date''" undefined 0 "ustr (date_isoformat 2024 1 5)" PNone undefined undefined]
  by (simp add: py_date_def)

end
